theory Spec2Isabelle
  imports Main
begin

section \<open>Values of the settings stores\<close>

text \<open>
  The settings stores of the host hold JSON values, which the plugin reads as Python
  objects: \<open>None\<close>, booleans, integers, strings, lists and dictionaries.  A dictionary
  is kept as an association list that is read with \<open>map_of\<close>.  Floating point values
  are not represented.
\<close>

datatype pyval =
    PNone
  | PBool bool
  | PInt int
  | PStr string
  | PList "pyval list"
  | PDict "(string \<times> pyval) list"

text \<open>Python truthiness, as used by \<open>if x\<close>, \<open>not x\<close> and \<open>x or y\<close>.\<close>

fun truthy :: "pyval \<Rightarrow> bool" where
  "truthy PNone = False"
| "truthy (PBool b) = b"
| "truthy (PInt i) = (i \<noteq> 0)"
| "truthy (PStr s) = (s \<noteq> [])"
| "truthy (PList xs) = (xs \<noteq> [])"
| "truthy (PDict kvs) = (kvs \<noteq> [])"

definition py_or :: "pyval \<Rightarrow> pyval \<Rightarrow> pyval" where
  "py_or a b = (if truthy a then a else b)"

text \<open>\<open>d.get(key)\<close> on a Python dictionary: \<open>None\<close> when the key is missing.\<close>

definition dict_get :: "(string \<times> pyval) list \<Rightarrow> string \<Rightarrow> pyval" where
  "dict_get d k = (case map_of d k of None \<Rightarrow> PNone | Some v \<Rightarrow> v)"

text \<open>
  \<open>0 <= width\<close> under Python 3 (the only interpreter that reaches the comparison, see
  \<open>get_show_in_minimap\<close>): integers compare, booleans are the integers 0 and 1, every
  other value raises \<open>TypeError\<close>.
\<close>

datatype error =
    ValueError string
  | TypeError
  | KeyError string
  | AttributeError

fun zero_le :: "pyval \<Rightarrow> error + bool" where
  "zero_le (PInt w) = Inr (0 \<le> w)"
| "zero_le (PBool b) = Inr True"
| "zero_le v = Inl TypeError"

section \<open>The host: editor API, environment and file system\<close>

type_synonym store = "string \<rightharpoonup> pyval"

text \<open>
  Everything the module asks of its host.  \<open>settings_files\<close> gives the content behind
  \<open>sublime.load_settings(name)\<close>; the object that call returns is a handle on that
  content, so a handle is the file name.  \<open>error_messages\<close> records the dialogs
  shown by \<open>sublime.error_message\<close>, the latest first.  The functions of \<open>os.path\<close>,
  \<open>shutil.which\<close> and the file tests depend on the platform and the file system and
  are taken as they are; \<open>expandvars\<close> is taken on every value, since what it does
  on a value that is not a string depends on the interpreter.
\<close>

record host =
  version :: int
  platform :: string
  settings_files :: "string \<Rightarrow> store"
  find_resources :: "string \<Rightarrow> string list"
  error_messages :: "string list"
  expandvars :: "pyval \<Rightarrow> error + pyval"
  which :: "string \<Rightarrow> string option"
  environ :: "string \<rightharpoonup> string"
  pathsep :: char
  path_join :: "string \<Rightarrow> string \<Rightarrow> string"
  isfile :: "string \<Rightarrow> bool"
  access_x :: "string \<Rightarrow> bool"
  basename :: "string \<Rightarrow> string"
  dirname :: "string \<Rightarrow> string"
  splitext :: "string \<Rightarrow> string \<times> string"

text \<open>Lines 6 and 7: the version of the editor, and whether it is ST3.\<close>

definition STVER :: "host \<Rightarrow> int" where
  "STVER h = version h"

definition ST3 :: "host \<Rightarrow> bool" where
  "ST3 h = (3000 \<le> STVER h)"

text \<open>The methods of a settings object: \<open>has(key)\<close>, \<open>get(key, default)\<close>, \<open>set(key, value)\<close>.\<close>

definition settings_has :: "host \<Rightarrow> string \<Rightarrow> string \<Rightarrow> bool" where
  "settings_has h name key = (settings_files h name key \<noteq> None)"

definition settings_get :: "host \<Rightarrow> string \<Rightarrow> string \<Rightarrow> pyval \<Rightarrow> pyval" where
  "settings_get h name key dflt =
     (case settings_files h name key of None \<Rightarrow> dflt | Some v \<Rightarrow> v)"

definition settings_set :: "host \<Rightarrow> string \<Rightarrow> string \<Rightarrow> pyval \<Rightarrow> host" where
  "settings_set h name key v =
     h\<lparr>settings_files := (settings_files h)(name := (settings_files h name)(key \<mapsto> v))\<rparr>"

text \<open>A view, as far as the module reads it: \<open>view.settings()\<close>.\<close>

record view =
  view_settings :: store

definition view_get :: "view \<Rightarrow> string \<Rightarrow> pyval" where
  "view_get v key = (case view_settings v key of None \<Rightarrow> PNone | Some x \<Rightarrow> x)"

text \<open>\<open>s.split(sep)\<close> for a separator of one character, and \<open>s.strip(c)\<close>.\<close>

fun split_sep :: "char \<Rightarrow> string \<Rightarrow> string list" where
  "split_sep c [] = [[]]"
| "split_sep c (x # xs) =
     (if x = c then [] # split_sep c xs
      else (case split_sep c xs of [] \<Rightarrow> [[x]] | w # ws \<Rightarrow> (x # w) # ws))"

definition strip_char :: "char \<Rightarrow> string \<Rightarrow> string" where
  "strip_char c s = rev (dropWhile (\<lambda>x. x = c) (rev (dropWhile (\<lambda>x. x = c) s)))"

section \<open>GitGutterSettings\<close>

text \<open>
  The fields of the object, under the names of the source without the leading
  underscore; \<open>theme_path_cache\<close> is \<open>_theme_path\<close>.  \<open>self_settings\<close> and
  \<open>self_user_settings\<close> are \<open>None\<close> or a handle.
\<close>

record self =
  self_settings :: "string option"
  self_user_settings :: "string option"
  git_binary_path_fallback :: pyval
  git_binary_path_error_shown :: bool
  compare_against_mapping :: "string \<rightharpoonup> pyval"
  git_binary_path :: pyval
  ignore_whitespace :: pyval
  patience_switch :: string
  package_name :: string
  builtin_theme_path :: string
  theme_path_cache :: string

text \<open>
  Lines 60 to 81: \<open>__init__\<close>.  The package name is computed from the path of the
  module's file and is a parameter here.
\<close>

definition init :: "host \<Rightarrow> string \<Rightarrow> self" where
  "init h pkg =
     \<lparr> self_settings = None,
       self_user_settings = None,
       git_binary_path_fallback = PNone,
       git_binary_path_error_shown = False,
       compare_against_mapping = Map.empty,
       git_binary_path = PNone,
       ignore_whitespace = PBool False,
       patience_switch = [],
       package_name = pkg,
       builtin_theme_path = (if ST3 h then ''Packages'' else ''..'') @ ''/'' @ pkg @ ''/themes'',
       theme_path_cache = [] \<rparr>"

abbreviation gitgutter_file :: string where
  "gitgutter_file \<equiv> ''GitGutter.sublime-settings''"

abbreviation preferences_file :: string where
  "preferences_file \<equiv> ''Preferences.sublime-settings''"

abbreviation not_found_message :: string where
  "not_found_message \<equiv>
     ''Your Git binary cannot be found. If it is installed, add it to your PATH environment variable, or add a `git_binary` setting in the `User/GitGutter.sublime-settings` file.''"

subsection \<open>load_settings\<close>

text \<open>
  Lines 99 to 107: the configured executable.  The user's value wins when it is truthy;
  a dictionary is read at the platform's name, then at \<open>default\<close>.
\<close>

definition git_binary_setting :: "host \<Rightarrow> pyval" where
  "git_binary_setting h =
     py_or (settings_get h preferences_file ''git_binary'' PNone)
           (settings_get h gitgutter_file ''git_binary'' PNone)"

definition configured_git_binary :: "host \<Rightarrow> pyval" where
  "configured_git_binary h =
     (case git_binary_setting h of
        PDict d \<Rightarrow>
          (let p = dict_get d (platform h)
           in if truthy p then p else dict_get d ''default'')
      | v \<Rightarrow> v)"

text \<open>
  Lines 117 to 123: the search along \<open>PATH\<close> on a host before ST3.  \<open>git_exe\<close> is the
  name looked for, \<open>candidate\<close> the path tried in a folder, \<open>is_executable\<close> the test
  on it.  The loop stops at the first folder that passes.
\<close>

definition git_exe :: "host \<Rightarrow> string" where
  "git_exe h = (if platform h = ''windows'' then ''git.exe'' else ''git'')"

definition candidate :: "host \<Rightarrow> string \<Rightarrow> string" where
  "candidate h folder = path_join h (strip_char CHR ''\"'' folder) (git_exe h)"

definition is_executable :: "host \<Rightarrow> string \<Rightarrow> bool" where
  "is_executable h path = (isfile h path \<and> access_x h path)"

fun scan_path :: "host \<Rightarrow> string list \<Rightarrow> self \<Rightarrow> self" where
  "scan_path h [] s = s"
| "scan_path h (folder # folders) s =
     (if is_executable h (candidate h folder)
      then s\<lparr>git_binary_path := PStr (candidate h folder),
             git_binary_path_fallback := PStr (candidate h folder)\<rparr>
      else scan_path h folders s)"

text \<open>
  Lines 109 to 123, entered with \<open>git_binary_path\<close> holding the configured value.
  An exception leaves the fields as they are.
\<close>

definition locate_git_binary :: "host \<Rightarrow> self \<Rightarrow> error + self" where
  "locate_git_binary h s =
     (if truthy (git_binary_path s) then
        (case expandvars h (git_binary_path s) of
           Inl e \<Rightarrow> Inl e
         | Inr q \<Rightarrow> Inr (s\<lparr>git_binary_path := q\<rparr>))
      else if truthy (git_binary_path_fallback s) then
        Inr (s\<lparr>git_binary_path := git_binary_path_fallback s\<rparr>)
      else if ST3 h then
        (let w = (case which h ''git'' of None \<Rightarrow> PNone | Some p \<Rightarrow> PStr p)
         in Inr (s\<lparr>git_binary_path := w, git_binary_path_fallback := w\<rparr>))
      else
        (case environ h ''PATH'' of
           None \<Rightarrow> Inl (KeyError ''PATH'')
         | Some p \<Rightarrow> Inr (scan_path h (split_sep (pathsep h) p) s)))"

text \<open>Lines 136 to 142 and 145 to 147: the two switches of the diff command.\<close>

definition whitespace_switch :: "pyval \<Rightarrow> pyval" where
  "whitespace_switch v =
     (if v = PStr ''all'' then PStr ''-w''
      else if v = PStr ''eol'' then PStr ''--ignore-space-at-eol''
      else PStr '''')"

definition load_switches :: "host \<Rightarrow> self \<Rightarrow> self" where
  "load_switches h s =
     s\<lparr>ignore_whitespace :=
          whitespace_switch (settings_get h gitgutter_file ''ignore_whitespace'' PNone),
       patience_switch :=
          (if truthy (settings_get h gitgutter_file ''patience'' PNone)
           then ''--patience'' else '''')\<rparr>"

text \<open>
  Lines 93 to 147: the whole method.  The result is the exception raised or \<open>()\<close>, with
  the host and the object as the call leaves them.  The two stores are assigned first and
  stay assigned when the call raises.  Lines 125 to 133: with no executable and the flag
  unset, the flag is set, the dialog shown and \<open>ValueError\<close> raised; with the flag set the
  method goes on to the switches.
\<close>

definition load_settings :: "host \<Rightarrow> self \<Rightarrow> (error + unit) \<times> host \<times> self" where
  "load_settings h s =
     (let s1 = s\<lparr>self_settings := Some gitgutter_file,
                 self_user_settings := Some preferences_file\<rparr>;
          s2 = s1\<lparr>git_binary_path := configured_git_binary h\<rparr>
      in case locate_git_binary h s2 of
           Inl e \<Rightarrow> (Inl e, h, s2)
         | Inr s3 \<Rightarrow>
             if \<not> truthy (git_binary_path s3) \<and> \<not> git_binary_path_error_shown s3 then
               (Inl (ValueError ''Git binary not found.''),
                h\<lparr>error_messages := not_found_message # error_messages h\<rparr>,
                s3\<lparr>git_binary_path_error_shown := True\<rparr>)
             else (Inr (), h, load_switches h s3))"

text \<open>Lines 10 and 11.\<close>

definition plugin_loaded :: "host \<Rightarrow> self \<Rightarrow> (error + unit) \<times> host \<times> self" where
  "plugin_loaded h s = load_settings h s"

subsection \<open>The accessors\<close>

text \<open>
  Lines 83 to 91.  \<open>get\<close> loads the settings when the store is unset or lacks the key,
  \<open>set\<close> when the store is unset.  Both then read the field again and call the store; on
  a field that were still \<open>None\<close> that call would raise \<open>AttributeError\<close>.
\<close>

definition needs_load :: "host \<Rightarrow> self \<Rightarrow> string \<Rightarrow> bool" where
  "needs_load h s key =
     (case self_settings s of None \<Rightarrow> True | Some name \<Rightarrow> \<not> settings_has h name key)"

definition get :: "host \<Rightarrow> self \<Rightarrow> string \<Rightarrow> pyval \<Rightarrow> (error + pyval) \<times> host \<times> self" where
  "get h s key dflt =
     (if needs_load h s key then
        (case load_settings h s of
           (Inl e, h', s') \<Rightarrow> (Inl e, h', s')
         | (Inr u, h', s') \<Rightarrow>
             (case self_settings s' of
                None \<Rightarrow> (Inl AttributeError, h', s')
              | Some name \<Rightarrow> (Inr (settings_get h' name key dflt), h', s')))
      else
        (case self_settings s of
           None \<Rightarrow> (Inl AttributeError, h, s)
         | Some name \<Rightarrow> (Inr (settings_get h name key dflt), h, s)))"

definition set' :: "host \<Rightarrow> self \<Rightarrow> string \<Rightarrow> pyval \<Rightarrow> (error + unit) \<times> host \<times> self" where
  "set' h s key v =
     (case self_settings s of
        None \<Rightarrow>
          (case load_settings h s of
             (Inl e, h', s') \<Rightarrow> (Inl e, h', s')
           | (Inr u, h', s') \<Rightarrow>
               (case self_settings s' of
                  None \<Rightarrow> (Inl AttributeError, h', s')
                | Some name \<Rightarrow> (Inr (), settings_set h' name key v, s')))
      | Some name \<Rightarrow> (Inr (), settings_set h name key v, s))"

subsection \<open>The compare target\<close>

text \<open>
  Lines 149 to 177.  The mapping is asked whether it has the key, so an override is
  returned whatever its value.
\<close>

definition get_compare_against ::
  "host \<Rightarrow> self \<Rightarrow> string \<Rightarrow> view \<Rightarrow> (error + pyval) \<times> host \<times> self" where
  "get_compare_against h s git_tree v =
     (case compare_against_mapping s git_tree of
        Some target \<Rightarrow> (Inr target, h, s)
      | None \<Rightarrow>
          (let compare = view_get v ''git_gutter_compare_against''
           in if \<not> truthy compare then get h s ''compare_against'' (PStr ''HEAD'')
              else (Inr compare, h, s)))"

definition set_compare_against :: "self \<Rightarrow> string \<Rightarrow> pyval \<Rightarrow> self" where
  "set_compare_against s git_tree new_compare_against =
     s\<lparr>compare_against_mapping := (compare_against_mapping s)(git_tree \<mapsto> new_compare_against)\<rparr>"

subsection \<open>The minimap width\<close>

text \<open>
  Lines 179 to 186.  \<open>limit_width\<close> is the last line,
  \<open>return width if 0 <= width else 100000\<close>.
\<close>

definition limit_width :: "pyval \<Rightarrow> error + pyval" where
  "limit_width width =
     (case zero_le width of
        Inl e \<Rightarrow> Inl e
      | Inr b \<Rightarrow> Inr (if b then width else PInt 100000))"

definition get_show_in_minimap ::
  "host \<Rightarrow> self \<Rightarrow> view \<Rightarrow> (error + pyval) \<times> host \<times> self" where
  "get_show_in_minimap h s v =
     (if \<not> ST3 h then (Inr (PInt 0), h, s)
      else
        (let width = view_get v ''git_gutter_show_in_minimap''
         in if width = PNone then
              (case get h s ''show_in_minimap'' (PInt 1) of
                 (Inl e, h', s') \<Rightarrow> (Inl e, h', s')
               | (Inr w, h', s') \<Rightarrow> (limit_width w, h', s'))
            else (limit_width width, h, s)))"

subsection \<open>The theme path\<close>

text \<open>Lines 188 to 191.\<close>

definition default_theme_path :: "self \<Rightarrow> string" where
  "default_theme_path s = builtin_theme_path s @ ''/Default''"

text \<open>
  Lines 193 to 207: the property \<open>theme_path\<close>.  A theme that is not a string never
  equals the basename; the resource search and \<open>os.path.splitext\<close> then raise on it.
\<close>

definition theme_path :: "host \<Rightarrow> self \<Rightarrow> (error + string) \<times> host \<times> self" where
  "theme_path h s =
     (case get h s ''theme'' (PStr ''Default.gitgutter-theme'') of
        (Inl e, h', s') \<Rightarrow> (Inl e, h', s')
      | (Inr theme, h', s') \<Rightarrow>
          if theme \<noteq> PStr (basename h' (theme_path_cache s')) then
            (if ST3 h' then
               (case theme of
                  PStr t \<Rightarrow>
                    (let themes = find_resources h' t;
                         s'' = s'\<lparr>theme_path_cache :=
                                  (if themes \<noteq> [] then dirname h' (last themes)
                                   else default_theme_path s')\<rparr>
                     in (Inr (theme_path_cache s''), h', s''))
                | _ \<Rightarrow> (Inl TypeError, h', s'))
             else
               (case theme of
                  PStr t \<Rightarrow>
                    (let s'' = s'\<lparr>theme_path_cache :=
                                  builtin_theme_path s' @ ''/'' @ fst (splitext h' t)\<rparr>
                     in (Inr (theme_path_cache s''), h', s''))
                | _ \<Rightarrow> (Inl AttributeError, h', s')))
          else (Inr (theme_path_cache s'), h', s'))"

section \<open>Repeated loads\<close>

text \<open>
  A run of \<open>load_settings\<close> calls on one object.  The environment may differ from call to
  call (the list gives it); the dialogs shown so far are carried from each call to the
  next, and an exception ends a call, not the run.  The result is the list of dialogs shown
  and the object at the end.
\<close>

fun load_repeatedly :: "host list \<Rightarrow> string list \<Rightarrow> self \<Rightarrow> string list \<times> self" where
  "load_repeatedly [] shown s = (shown, s)"
| "load_repeatedly (h # hs) shown s =
     (case load_settings (h\<lparr>error_messages := shown\<rparr>) s of
        (r, h', s') \<Rightarrow> load_repeatedly hs (error_messages h') s')"

section \<open>Hosts to evaluate on\<close>

text \<open>
  \<open>os.path\<close> of a POSIX platform: \<open>basename\<close> and \<open>dirname\<close> cut at the last slash,
  \<open>splitext\<close> at the last dot of the last component unless only dots precede it, \<open>join\<close>
  puts one slash between folder and name.
\<close>

definition posix_basename :: "string \<Rightarrow> string" where
  "posix_basename p = rev (takeWhile (\<lambda>c. c \<noteq> CHR ''/'') (rev p))"

definition posix_dirname :: "string \<Rightarrow> string" where
  "posix_dirname p =
     (let head = rev (dropWhile (\<lambda>c. c \<noteq> CHR ''/'') (rev p))
      in if list_ex (\<lambda>c. c \<noteq> CHR ''/'') head
         then rev (dropWhile (\<lambda>c. c = CHR ''/'') (rev head)) else head)"

definition posix_splitext :: "string \<Rightarrow> string \<times> string" where
  "posix_splitext p =
     (let name = posix_basename p;
          ext = rev (takeWhile (\<lambda>c. c \<noteq> CHR ''.'') (rev name));
          stem = take (length name - length ext - 1) name
      in if length ext < length name \<and> list_ex (\<lambda>c. c \<noteq> CHR ''.'') stem
         then (take (length p - length ext - 1) p, CHR ''.'' # ext)
         else (p, []))"

definition posix_join :: "string \<Rightarrow> string \<Rightarrow> string" where
  "posix_join a b =
     (if b \<noteq> [] \<and> hd b = CHR ''/'' then b
      else if a = [] \<or> last a = CHR ''/'' then a @ b
      else a @ ''/'' @ b)"

text \<open>
  A Linux host running ST3 with empty settings files, no resources and no \<open>git\<close>
  anywhere; no variable is set that a path refers to, so \<open>expandvars\<close> returns a
  string as it is.  The hosts of the examples below are updates of this one.
\<close>

definition example_host :: host where
  "example_host =
     \<lparr> version = 3176,
       platform = ''linux'',
       settings_files = (\<lambda>name. Map.empty),
       find_resources = (\<lambda>pattern. []),
       error_messages = [],
       expandvars = (\<lambda>v. case v of PStr p \<Rightarrow> Inr (PStr p) | _ \<Rightarrow> Inl TypeError),
       which = (\<lambda>name. None),
       environ = [''PATH'' \<mapsto> ''/usr/local/bin:/usr/bin''],
       pathsep = CHR '':'',
       path_join = posix_join,
       isfile = (\<lambda>p. False),
       access_x = (\<lambda>p. False),
       basename = posix_basename,
       dirname = posix_dirname,
       splitext = posix_splitext \<rparr>"

text \<open>
  The same host with \<open>git\<close> installed, with a plugin settings file, and before ST3 with
  \<open>git\<close> in the second folder of \<open>PATH\<close>.
\<close>

definition git_host :: host where
  "git_host = example_host\<lparr>which := (\<lambda>name. if name = ''git'' then Some ''/usr/bin/git'' else None)\<rparr>"

definition plugin_file :: store where
  "plugin_file =
     [''git_binary'' \<mapsto> PDict [(''default'', PStr ''git''), (''windows'', PStr ''C:/Git/bin/git.exe'')],
      ''compare_against'' \<mapsto> PStr ''master'',
      ''show_in_minimap'' \<mapsto> PInt (- 1),
      ''ignore_whitespace'' \<mapsto> PStr ''all'',
      ''theme'' \<mapsto> PStr ''Bars.gitgutter-theme'']"

definition configured_host :: host where
  "configured_host =
     example_host
       \<lparr>settings_files := (\<lambda>name. if name = gitgutter_file then plugin_file else Map.empty),
        find_resources := (\<lambda>pattern. if pattern = ''Bars.gitgutter-theme''
           then [''Packages/GitGutter/themes/Bars/Bars.gitgutter-theme'',
                 ''Packages/User/Icons/Bars.gitgutter-theme'']
           else [])\<rparr>"

definition old_host :: host where
  "old_host =
     example_host
       \<lparr>version := 2221,
        settings_files := (\<lambda>name. if name = gitgutter_file
           then [''theme'' \<mapsto> PStr ''Bars.gitgutter-theme''] else Map.empty),
        isfile := (\<lambda>p. p = ''/usr/bin/git''),
        access_x := (\<lambda>p. p = ''/usr/bin/git'')\<rparr>"

definition fresh :: self where
  "fresh = init example_host ''GitGutter''"

definition fresh_old :: self where
  "fresh_old = init old_host ''GitGutter''"

definition empty_view :: view where
  "empty_view = \<lparr>view_settings = Map.empty\<rparr>"

text \<open>
  The host and the object after the first load has failed on \<open>example_host\<close>; a view
  that sets the minimap width; an object whose cached theme path ends in the name of the
  configured theme; a host whose plugin settings ask to ignore whitespace at line ends.
\<close>

definition shown_host :: host where
  "shown_host = example_host\<lparr>error_messages := [not_found_message]\<rparr>"

definition shown_self :: self where
  "shown_self =
     fresh\<lparr>self_settings := Some gitgutter_file,
           self_user_settings := Some preferences_file,
           git_binary_path_error_shown := True\<rparr>"

definition width_view :: "int \<Rightarrow> view" where
  "width_view w = \<lparr>view_settings = [''git_gutter_show_in_minimap'' \<mapsto> PInt w]\<rparr>"

definition themed_self :: self where
  "themed_self = fresh\<lparr>theme_path_cache := ''Packages/User/Bars.gitgutter-theme''\<rparr>"

definition eol_host :: host where
  "eol_host = git_host\<lparr>settings_files := (\<lambda>name. if name = gitgutter_file
     then [''ignore_whitespace'' \<mapsto> PStr ''eol''] else Map.empty)\<rparr>"

text \<open>
  A host where the user's preferences give the executable for Linux by a variable that
  \<open>expandvars\<close> resolves, and a host whose plugin settings give it for OSX only.
\<close>

definition home_host :: host where
  "home_host =
     configured_host
       \<lparr>settings_files := (\<lambda>name. if name = gitgutter_file then plugin_file
           else if name = preferences_file
           then [''git_binary'' \<mapsto> PDict [(''linux'', PStr ''$HOME/bin/git'')]]
           else Map.empty),
        expandvars := (\<lambda>v. case v of
           PStr p \<Rightarrow> Inr (PStr (if p = ''$HOME/bin/git'' then ''/home/user/bin/git'' else p))
         | _ \<Rightarrow> Inl TypeError)\<rparr>"

definition mac_only_host :: host where
  "mac_only_host =
     git_host\<lparr>settings_files := (\<lambda>name. if name = gitgutter_file
        then [''git_binary'' \<mapsto> PDict [(''osx'', PStr ''/opt/local/bin/git'')]]
        else Map.empty)\<rparr>"

text \<open>
  A host without \<open>git\<close> whose plugin settings give a minimap width and a theme, and
  the object after a load that succeeded on \<open>configured_host\<close>.
\<close>

definition settings_only_host :: host where
  "settings_only_host =
     example_host\<lparr>settings_files := (\<lambda>name. if name = gitgutter_file
        then [''show_in_minimap'' \<mapsto> PInt 3, ''theme'' \<mapsto> PStr ''Bars.gitgutter-theme'']
        else Map.empty)\<rparr>"

definition loaded_self :: self where
  "loaded_self = snd (snd (load_settings configured_host fresh))"

text \<open>The host with the key \<open>git_binary\<close> taken out of every settings file.\<close>

definition without_git_binary :: "host \<Rightarrow> host" where
  "without_git_binary h =
     h\<lparr>settings_files := (\<lambda>name. (settings_files h name)(''git_binary'' := None))\<rparr>"

section \<open>Facts about load_settings\<close>

text \<open>
  Unfolding sets for evaluating the model on the hosts above: the definitions behind
  \<open>load_settings\<close> and \<open>get\<close>, and the hosts most examples start from.
\<close>

lemmas model_defs =
  load_settings_def load_switches_def whitespace_switch_def locate_git_binary_def
  configured_git_binary_def git_binary_setting_def settings_get_def settings_has_def
  py_or_def dict_get_def get_def needs_load_def init_def ST3_def STVER_def git_exe_def
  candidate_def is_executable_def strip_char_def Let_def

lemmas host_defs =
  example_host_def git_host_def configured_host_def plugin_file_def fresh_def
  posix_join_def posix_basename_def posix_dirname_def posix_splitext_def

lemma scan_path_find:
  "scan_path h fs s =
     (case find (\<lambda>f. is_executable h (candidate h f)) fs of
        None \<Rightarrow> s
      | Some f \<Rightarrow> s\<lparr>git_binary_path := PStr (candidate h f),
                     git_binary_path_fallback := PStr (candidate h f)\<rparr>)"
  by (induction fs) simp_all

lemma scan_path_nothing:
  "\<forall>f \<in> set fs. \<not> is_executable h (candidate h f) \<Longrightarrow> scan_path h fs s = s"
  by (induction fs) simp_all

lemma locate_shown:
  "locate_git_binary h s = Inr s' \<Longrightarrow>
     git_binary_path_error_shown s' = git_binary_path_error_shown s"
  by (auto simp: locate_git_binary_def scan_path_find Let_def
      split: if_splits sum.splits option.splits)

lemma load_settings_ok:
  "load_settings h s = (Inr u, h', s') \<Longrightarrow> h' = h \<and> self_settings s' = Some gitgutter_file"
  by (auto simp: load_settings_def load_switches_def locate_git_binary_def scan_path_find Let_def
      split: if_splits sum.splits option.splits)

lemma load_settings_frame:
  "load_settings h s = (r, h', s') \<Longrightarrow>
     theme_path_cache s' = theme_path_cache s \<and> builtin_theme_path s' = builtin_theme_path s \<and>
     compare_against_mapping s' = compare_against_mapping s \<and> package_name s' = package_name s"
  by (auto simp: load_settings_def load_switches_def locate_git_binary_def scan_path_find Let_def
      split: if_splits sum.splits option.splits)

lemma load_settings_messages:
  "load_settings h s = (r, h', s') \<Longrightarrow>
   length (error_messages h) \<le> (if git_binary_path_error_shown s then 1 else 0) \<Longrightarrow>
   length (error_messages h') \<le> (if git_binary_path_error_shown s' then 1 else 0)"
  by (auto simp: load_settings_def load_switches_def Let_def dest: locate_shown
      split: if_splits sum.splits)

text \<open>
  \<open>get\<close> on an object whose store is unset or is the plugin's: the value comes from the
  plugin's settings file, at once when the store is loaded and has the key, after
  \<open>load_settings\<close> otherwise, and an error of that load is passed on.
\<close>

lemma get_plugin_store:
  assumes "self_settings s = None \<or> self_settings s = Some gitgutter_file"
  shows "get h s key dflt =
     (if self_settings s = Some gitgutter_file \<and> settings_has h gitgutter_file key
      then (Inr (settings_get h gitgutter_file key dflt), h, s)
      else (case load_settings h s of
              (Inl e, h', s') \<Rightarrow> (Inl e, h', s')
            | (Inr u, h', s') \<Rightarrow> (Inr (settings_get h gitgutter_file key dflt), h', s')))"
proof (cases "load_settings h s")
  case (fields r h' s')
  show ?thesis
  proof (cases r)
    case (Inl e)
    with fields assms show ?thesis
      by (auto simp: get_def needs_load_def)
  next
    case (Inr u)
    with fields load_settings_ok [of h s u h' s'] assms show ?thesis
      by (auto simp: get_def needs_load_def)
  qed
qed

lemma load_repeatedly_messages:
  "length shown \<le> (if git_binary_path_error_shown s then 1 else 0) \<Longrightarrow>
   length (fst (load_repeatedly hs shown s)) \<le> 1"
proof (induction hs arbitrary: shown s)
  case Nil
  then show ?case by (simp split: if_splits)
next
  case (Cons h hs)
  obtain r h' s' where l: "load_settings (h\<lparr>error_messages := shown\<rparr>) s = (r, h', s')"
    by (cases "load_settings (h\<lparr>error_messages := shown\<rparr>) s") auto
  from Cons.prems have "length (error_messages (h\<lparr>error_messages := shown\<rparr>))
      \<le> (if git_binary_path_error_shown s then 1 else 0)" by simp
  from load_settings_messages [OF l this] Cons.IH [of "error_messages h'" s'] l
  show ?case by simp
qed

text \<open>
  Taking \<open>git_binary\<close> out of the settings changes nothing but the configured value, and
  a falsy configured value is looked up like \<open>None\<close>.
\<close>

lemma without_git_binary_fields:
  "version (without_git_binary h) = version h"
  "platform (without_git_binary h) = platform h"
  "which (without_git_binary h) = which h"
  "environ (without_git_binary h) = environ h"
  "pathsep (without_git_binary h) = pathsep h"
  "expandvars (without_git_binary h) = expandvars h"
  "error_messages (without_git_binary h) = error_messages h"
  "settings_files (without_git_binary h) name ''git_binary'' = None"
  "settings_files (without_git_binary h) name ''ignore_whitespace'' =
     settings_files h name ''ignore_whitespace''"
  "settings_files (without_git_binary h) name ''patience'' = settings_files h name ''patience''"
  by (simp_all add: without_git_binary_def)

lemma without_git_binary_scan:
  "scan_path (without_git_binary h) fs s = scan_path h fs s"
  by (induction fs)
    (simp_all add: is_executable_def candidate_def git_exe_def without_git_binary_def)

lemma without_git_binary_locate:
  "locate_git_binary (without_git_binary h) s = locate_git_binary h s"
  by (simp add: locate_git_binary_def without_git_binary_scan without_git_binary_fields
      ST3_def STVER_def split: option.split)

lemma without_git_binary_switches:
  "load_switches (without_git_binary h) s = load_switches h s"
  by (simp add: load_switches_def settings_get_def without_git_binary_fields)

lemma without_git_binary_configured:
  "configured_git_binary (without_git_binary h) = PNone"
  by (simp add: configured_git_binary_def git_binary_setting_def settings_get_def py_or_def
      without_git_binary_fields)

lemma locate_falsy:
  assumes "\<not> truthy c"
  shows "(\<exists>e. locate_git_binary h (s\<lparr>git_binary_path := c\<rparr>) = Inl e \<and>
              locate_git_binary h (s\<lparr>git_binary_path := PNone\<rparr>) = Inl e) \<or>
         (\<exists>t t0. locate_git_binary h (s\<lparr>git_binary_path := c\<rparr>) = Inr t \<and>
              locate_git_binary h (s\<lparr>git_binary_path := PNone\<rparr>) = Inr t0 \<and>
              t0 = t\<lparr>git_binary_path := git_binary_path t0\<rparr> \<and>
              (git_binary_path t = git_binary_path t0 \<or>
               \<not> truthy (git_binary_path t) \<and> \<not> truthy (git_binary_path t0)) \<and>
              git_binary_path_error_shown t = git_binary_path_error_shown s)"
proof (cases "truthy (git_binary_path_fallback s)")
  case True
  with assms show ?thesis
    by (simp add: locate_git_binary_def)
next
  case fb: False
  show ?thesis
  proof (cases "ST3 h")
    case True
    with assms fb show ?thesis
      by (simp add: locate_git_binary_def Let_def)
  next
    case st: False
    show ?thesis
    proof (cases "environ h ''PATH''")
      case None
      with assms fb st show ?thesis
        by (simp add: locate_git_binary_def)
    next
      case (Some p)
      show ?thesis
      proof (cases "find (\<lambda>f. is_executable h (candidate h f)) (split_sep (pathsep h) p)")
        case None
        with assms fb st Some show ?thesis
          by (simp add: locate_git_binary_def scan_path_find)
      next
        case (Some f)
        with assms fb st \<open>environ h ''PATH'' = Some p\<close> show ?thesis
          by (simp add: locate_git_binary_def scan_path_find)
      qed
    qed
  qed
qed

text \<open>Loading and reading settings never looks at the resources of the host.\<close>

lemma scan_path_find_resources:
  "scan_path (h\<lparr>find_resources := f\<rparr>) fs s = scan_path h fs s"
  by (induction fs) (simp_all add: is_executable_def candidate_def git_exe_def)

lemma locate_find_resources:
  "locate_git_binary (h\<lparr>find_resources := f\<rparr>) s = locate_git_binary h s"
  by (simp add: locate_git_binary_def scan_path_find_resources ST3_def STVER_def
      split: option.split)

lemma configured_find_resources:
  "configured_git_binary (h\<lparr>find_resources := f\<rparr>) = configured_git_binary h"
  by (simp add: configured_git_binary_def git_binary_setting_def settings_get_def
      split: pyval.split)

lemma switches_find_resources:
  "load_switches (h\<lparr>find_resources := f\<rparr>) s = load_switches h s"
  by (simp add: load_switches_def settings_get_def)

lemma load_settings_find_resources:
  "load_settings (h\<lparr>find_resources := f\<rparr>) s =
     (case load_settings h s of (r, h', s') \<Rightarrow> (r, h'\<lparr>find_resources := f\<rparr>, s'))"
  by (simp add: load_settings_def locate_find_resources configured_find_resources
      switches_find_resources Let_def split: sum.split)

lemma settings_find_resources:
  "settings_get (h\<lparr>find_resources := f\<rparr>) name key dflt = settings_get h name key dflt"
  "settings_has (h\<lparr>find_resources := f\<rparr>) name key = settings_has h name key"
  "ST3 (h\<lparr>find_resources := f\<rparr>) = ST3 h"
  by (simp_all add: settings_get_def settings_has_def ST3_def STVER_def)

section \<open>The configured executable\<close>

text \<open>
  C7. When the configured \<open>git_binary\<close> (the user's value if truthy, else the plugin's)
  is a dictionary, \<open>load_settings\<close> takes the entry of the current platform when it is
  truthy, otherwise the entry \<open>default\<close>, and \<open>git_binary_path\<close> ends as what
  \<open>expandvars\<close> makes of that entry.  When neither entry is truthy the call goes as
  if the settings had no \<open>git_binary\<close> at all: same outcome, same dialogs, and the same
  object but for a \<open>git_binary_path\<close> that is falsy in both.
\<close>

theorem per_platform_git_binary:
  assumes "git_binary_setting h = PDict d"
    and "load_settings h s = (r, h', s')"
  shows "(truthy (dict_get d (platform h)) \<and> expandvars h (dict_get d (platform h)) = Inr q \<longrightarrow>
            git_binary_path s' = q) \<and>
         (\<not> truthy (dict_get d (platform h)) \<and> truthy (dict_get d ''default'') \<and>
          expandvars h (dict_get d ''default'') = Inr q \<longrightarrow>
            git_binary_path s' = q) \<and>
         (\<not> truthy (dict_get d (platform h)) \<and> \<not> truthy (dict_get d ''default'') \<longrightarrow>
            (case load_settings (without_git_binary h) s of
               (r0, h0, s0) \<Rightarrow>
                 r = r0 \<and> error_messages h' = error_messages h0 \<and>
                 s0 = s'\<lparr>git_binary_path := git_binary_path s0\<rparr> \<and>
                 (git_binary_path s' = git_binary_path s0 \<or>
                  \<not> truthy (git_binary_path s') \<and> \<not> truthy (git_binary_path s0))))"
proof (intro conjI impI)
  assume a: "truthy (dict_get d (platform h)) \<and> expandvars h (dict_get d (platform h)) = Inr q"
  with assms(1) have "configured_git_binary h = dict_get d (platform h)"
    by (simp add: configured_git_binary_def)
  with a assms(2) show "git_binary_path s' = q"
    by (auto simp: load_settings_def locate_git_binary_def load_switches_def Let_def
        split: if_splits)
next
  assume a: "\<not> truthy (dict_get d (platform h)) \<and> truthy (dict_get d ''default'') \<and>
          expandvars h (dict_get d ''default'') = Inr q"
  with assms(1) have "configured_git_binary h = dict_get d ''default''"
    by (simp add: configured_git_binary_def)
  with a assms(2) show "git_binary_path s' = q"
    by (auto simp: load_settings_def locate_git_binary_def load_switches_def Let_def
        split: if_splits)
next
  assume a: "\<not> truthy (dict_get d (platform h)) \<and> \<not> truthy (dict_get d ''default'')"
  with assms(1) have c: "\<not> truthy (configured_git_binary h)"
    by (simp add: configured_git_binary_def)
  let ?s1 = "s\<lparr>self_settings := Some gitgutter_file,
                 self_user_settings := Some preferences_file\<rparr>"
  let ?h0 = "without_git_binary h"
  from locate_falsy [OF c, of h ?s1]
  consider (raised) e where
      "locate_git_binary h (?s1\<lparr>git_binary_path := configured_git_binary h\<rparr>) = Inl e"
      "locate_git_binary h (?s1\<lparr>git_binary_path := PNone\<rparr>) = Inl e"
    | (located) t t0 where
      "locate_git_binary h (?s1\<lparr>git_binary_path := configured_git_binary h\<rparr>) = Inr t"
      "locate_git_binary h (?s1\<lparr>git_binary_path := PNone\<rparr>) = Inr t0"
      "t0 = t\<lparr>git_binary_path := git_binary_path t0\<rparr>"
      "git_binary_path t = git_binary_path t0 \<or>
               \<not> truthy (git_binary_path t) \<and> \<not> truthy (git_binary_path t0)"
    by blast
  then show "case load_settings ?h0 s of
               (r0, h0, s0) \<Rightarrow>
                 r = r0 \<and> error_messages h' = error_messages h0 \<and>
                 s0 = s'\<lparr>git_binary_path := git_binary_path s0\<rparr> \<and>
                 (git_binary_path s' = git_binary_path s0 \<or>
                  \<not> truthy (git_binary_path s') \<and> \<not> truthy (git_binary_path s0))"
  proof cases
    case raised
    with assms(2) c show ?thesis
      by (auto simp: load_settings_def Let_def without_git_binary_locate
          without_git_binary_configured without_git_binary_fields)
  next
    case located
    note l = located(1,2) and e = located(3) and g = located(4)
    define g0 where "g0 = git_binary_path t0"
    from e have t0: "t0 = t\<lparr>git_binary_path := g0\<rparr>"
      by (simp add: g0_def)
    from g have g': "git_binary_path t = g0 \<or> \<not> truthy (git_binary_path t) \<and> \<not> truthy g0"
      by (simp add: g0_def)
    then have tr: "truthy g0 = truthy (git_binary_path t)" by auto
    have r0: "load_settings ?h0 s =
        (if \<not> truthy (git_binary_path t) \<and> \<not> git_binary_path_error_shown t then
           (Inl (ValueError ''Git binary not found.''),
            ?h0\<lparr>error_messages := not_found_message # error_messages h\<rparr>,
            t\<lparr>git_binary_path := g0, git_binary_path_error_shown := True\<rparr>)
         else (Inr (), ?h0, load_switches h (t\<lparr>git_binary_path := g0\<rparr>)))"
      using l(2) tr
      by (simp add: t0 load_settings_def Let_def without_git_binary_locate
          without_git_binary_configured without_git_binary_fields without_git_binary_switches)
    have r1: "(r, h', s') =
        (if \<not> truthy (git_binary_path t) \<and> \<not> git_binary_path_error_shown t then
           (Inl (ValueError ''Git binary not found.''),
            h\<lparr>error_messages := not_found_message # error_messages h\<rparr>,
            t\<lparr>git_binary_path_error_shown := True\<rparr>)
         else (Inr (), h, load_switches h t))"
      using l(1) assms(2) by (simp add: load_settings_def Let_def)
    show ?thesis
    proof (cases "\<not> truthy (git_binary_path t) \<and> \<not> git_binary_path_error_shown t")
      case True
      with r0 r1 g' show ?thesis
        by (auto simp: without_git_binary_fields)
    next
      case False
      with r0 r1 g' show ?thesis
        by (auto simp: without_git_binary_fields load_switches_def)
    qed
  qed
qed

theorem per_platform_git_binary_witness:
  "git_binary_path (snd (snd (load_settings home_host fresh))) = PStr ''/home/user/bin/git'' \<and>
   git_binary_path (snd (snd (load_settings configured_host fresh))) = PStr ''git'' \<and>
   fst (load_settings mac_only_host fresh) = fst (load_settings (without_git_binary mac_only_host) fresh) \<and>
   git_binary_path (snd (snd (load_settings mac_only_host fresh))) = PStr ''/usr/bin/git''"
proof -
  have l: "load_settings h fresh =
      (fst (load_settings h fresh), fst (snd (load_settings h fresh)),
       snd (snd (load_settings h fresh)))" for h
    by simp
  have s1: "git_binary_setting home_host = PDict [(''linux'', PStr ''$HOME/bin/git'')]"
    by (simp add: git_binary_setting_def settings_get_def py_or_def home_host_def host_defs)
  have p1: "truthy (dict_get [(''linux'', PStr ''$HOME/bin/git'')] (platform home_host)) \<and>
      expandvars home_host (dict_get [(''linux'', PStr ''$HOME/bin/git'')] (platform home_host)) =
        Inr (PStr ''/home/user/bin/git'')"
    by (simp add: dict_get_def home_host_def host_defs)
  have r1: "git_binary_path (snd (snd (load_settings home_host fresh))) =
      PStr ''/home/user/bin/git''"
    using per_platform_git_binary [OF s1 l, where q = "PStr ''/home/user/bin/git''"] p1
    by blast
  let ?d = "[(''default'', PStr ''git''), (''windows'', PStr ''C:/Git/bin/git.exe'')]"
  have s2: "git_binary_setting configured_host = PDict ?d"
    by (simp add: git_binary_setting_def settings_get_def py_or_def host_defs)
  have p2: "\<not> truthy (dict_get ?d (platform configured_host)) \<and> truthy (dict_get ?d ''default'') \<and>
      expandvars configured_host (dict_get ?d ''default'') = Inr (PStr ''git'')"
    by (simp add: dict_get_def host_defs)
  have r2: "git_binary_path (snd (snd (load_settings configured_host fresh))) = PStr ''git''"
    using per_platform_git_binary [OF s2 l, where q = "PStr ''git''"] p2
    by blast
  let ?m = "[(''osx'', PStr ''/opt/local/bin/git'')]"
  have s3: "git_binary_setting mac_only_host = PDict ?m"
    by (simp add: git_binary_setting_def settings_get_def py_or_def mac_only_host_def host_defs)
  have p3: "\<not> truthy (dict_get ?m (platform mac_only_host)) \<and> \<not> truthy (dict_get ?m ''default'')"
    by (simp add: dict_get_def mac_only_host_def host_defs)
  have a3: "git_binary_path (snd (snd (load_settings (without_git_binary mac_only_host) fresh))) =
      PStr ''/usr/bin/git''"
    by (simp add: without_git_binary_def mac_only_host_def model_defs host_defs)
  from per_platform_git_binary [OF s3 l, where q = PNone] p3
  have "case load_settings (without_git_binary mac_only_host) fresh of
      (r0, h0, s0) \<Rightarrow>
        fst (load_settings mac_only_host fresh) = r0 \<and>
        (git_binary_path (snd (snd (load_settings mac_only_host fresh))) = git_binary_path s0 \<or>
         \<not> truthy (git_binary_path (snd (snd (load_settings mac_only_host fresh)))) \<and>
         \<not> truthy (git_binary_path s0))"
    by (auto split: prod.splits)
  then have r3: "fst (load_settings mac_only_host fresh) =
        fst (load_settings (without_git_binary mac_only_host) fresh) \<and>
      git_binary_path (snd (snd (load_settings mac_only_host fresh))) = PStr ''/usr/bin/git''"
    using a3 by (auto split: prod.splits)
  show ?thesis
    using r1 r2 r3 by simp
qed

section \<open>The compare target\<close>

text \<open>
  C2. After \<open>set_compare_against(root, target)\<close>, \<open>get_compare_against(root, view)\<close>
  returns \<open>target\<close> on every host, for every view and whatever the object held before;
  the call raises nothing and changes neither the host nor the object.
\<close>

theorem set_then_get_compare_against:
  "get_compare_against h (set_compare_against s root target) root v =
     (Inr target, h, set_compare_against s root target)"
  by (simp add: get_compare_against_def set_compare_against_def)

text \<open>
  The order in which \<open>get_compare_against\<close> looks: the override of the work-tree, the
  view's setting when truthy, then \<open>get\<close> on the plugin's settings with \<open>HEAD\<close> as default.
\<close>

lemma get_compare_against_priority:
  "get_compare_against h s root v =
     (case compare_against_mapping s root of
        Some target \<Rightarrow> (Inr target, h, s)
      | None \<Rightarrow>
          if truthy (view_get v ''git_gutter_compare_against'')
          then (Inr (view_get v ''git_gutter_compare_against''), h, s)
          else get h s ''compare_against'' (PStr ''HEAD''))"
  by (simp add: get_compare_against_def Let_def split: option.split)

text \<open>
  C1. With no override, no view setting and no \<open>compare_against\<close> in the plugin's
  settings the claim has \<open>get_compare_against\<close> return \<open>HEAD\<close>.  On a host where no
  executable can be found and the dialog has not been shown yet, the lookup of the plugin
  setting loads the settings, and the call raises \<open>ValueError\<close> after showing the dialog.
  This happens on a fresh object, and also on an object that has loaded its settings
  before, on a host where the executable was configured then.
\<close>

theorem get_compare_against_raises:
  "compare_against_mapping fresh ''/repo'' = None \<and>
   view_get empty_view ''git_gutter_compare_against'' = PNone \<and>
   settings_files example_host gitgutter_file ''compare_against'' = None \<and>
   get_compare_against example_host fresh ''/repo'' empty_view =
     (Inl (ValueError ''Git binary not found.''),
      example_host\<lparr>error_messages := [not_found_message]\<rparr>,
      fresh\<lparr>self_settings := Some gitgutter_file,
            self_user_settings := Some preferences_file,
            git_binary_path_error_shown := True\<rparr>) \<and>
   fst (load_settings home_host fresh) = Inr () \<and>
   fst (get_compare_against example_host (snd (snd (load_settings home_host fresh)))
          ''/repo'' empty_view) = Inl (ValueError ''Git binary not found.'')"
  by (simp add: get_compare_against_def view_get_def empty_view_def home_host_def model_defs
      host_defs)

section \<open>The dialog\<close>

text \<open>
  C4. Over any run of \<open>load_settings\<close> calls on an object made by \<open>__init__\<close>, in
  whatever environments, the "executable not found" dialog is shown at most once.
\<close>

theorem not_found_dialog_at_most_once:
  "length (fst (load_repeatedly hs [] (init h0 pkg))) \<le> 1"
  by (rule load_repeatedly_messages) (simp add: init_def)

text \<open>
  C5 (amended). A call of \<open>load_settings\<close> that resolves no executable (nothing truthy
  configured, no cached fallback, nothing found by \<open>which\<close> on ST3 or along \<open>PATH\<close>
  before) raises \<open>ValueError\<close>, after showing the dialog, exactly when the dialog has not
  been shown before.  Once the flag is set such a call raises nothing and shows nothing: it
  returns with \<open>git_binary_path\<close> falsy.
\<close>

theorem failed_load_raises_once:
  assumes "\<not> truthy (configured_git_binary h)"
    and "\<not> truthy (git_binary_path_fallback s)"
    and "ST3 h \<and> which h ''git'' = None \<or>
         \<not> ST3 h \<and> (\<exists>p. environ h ''PATH'' = Some p \<and>
            (\<forall>folder \<in> set (split_sep (pathsep h) p). \<not> is_executable h (candidate h folder)))"
  shows "fst (load_settings h s) =
           (if git_binary_path_error_shown s then Inr ()
            else Inl (ValueError ''Git binary not found.'')) \<and>
         error_messages (fst (snd (load_settings h s))) =
           (if git_binary_path_error_shown s then error_messages h
            else not_found_message # error_messages h) \<and>
         \<not> truthy (git_binary_path (snd (snd (load_settings h s)))) \<and>
         git_binary_path_error_shown (snd (snd (load_settings h s)))"
proof -
  let ?s2 = "s\<lparr>self_settings := Some gitgutter_file,
                 self_user_settings := Some preferences_file,
                 git_binary_path := configured_git_binary h\<rparr>"
  from assms(3) have "\<exists>s3. locate_git_binary h ?s2 = Inr s3 \<and> \<not> truthy (git_binary_path s3) \<and>
          git_binary_path_error_shown s3 = git_binary_path_error_shown s"
  proof
    assume "ST3 h \<and> which h ''git'' = None"
    with assms(1,2) show ?thesis
      by (simp add: locate_git_binary_def)
  next
    assume a: "\<not> ST3 h \<and> (\<exists>p. environ h ''PATH'' = Some p \<and>
            (\<forall>folder \<in> set (split_sep (pathsep h) p). \<not> is_executable h (candidate h folder)))"
    then obtain p where p: "environ h ''PATH'' = Some p"
      and n: "\<forall>folder \<in> set (split_sep (pathsep h) p). \<not> is_executable h (candidate h folder)"
      by blast
    from a assms(1,2) p scan_path_nothing [OF n] show ?thesis
      by (simp add: locate_git_binary_def)
  qed
  then obtain s3 where "locate_git_binary h ?s2 = Inr s3" "\<not> truthy (git_binary_path s3)"
    "git_binary_path_error_shown s3 = git_binary_path_error_shown s" by blast
  then show ?thesis
    by (simp add: load_settings_def load_switches_def Let_def)
qed

theorem failed_load_raises_once_witness:
  "fst (load_settings example_host fresh) = Inl (ValueError ''Git binary not found.'') \<and>
   fst (load_settings shown_host shown_self) = Inr () \<and>
   error_messages (fst (snd (load_settings shown_host shown_self))) = [not_found_message] \<and>
   \<not> truthy (git_binary_path (snd (snd (load_settings shown_host shown_self))))"
proof -
  have c: "\<not> truthy (configured_git_binary example_host)"
      "\<not> truthy (configured_git_binary shown_host)"
    by (simp_all add: shown_host_def configured_git_binary_def
        git_binary_setting_def settings_get_def py_or_def example_host_def)
  have f: "\<not> truthy (git_binary_path_fallback fresh)"
      "\<not> truthy (git_binary_path_fallback shown_self)"
    by (simp_all add: shown_self_def fresh_def init_def)
  have w: "ST3 example_host \<and> which example_host ''git'' = None"
      "ST3 shown_host \<and> which shown_host ''git'' = None"
    by (simp_all add: shown_host_def ST3_def STVER_def example_host_def)
  have e: "\<not> git_binary_path_error_shown fresh" "git_binary_path_error_shown shown_self"
      "error_messages shown_host = [not_found_message]"
    by (simp_all add: shown_self_def shown_host_def fresh_def init_def)
  from failed_load_raises_once [OF c(1) f(1) disjI1 [OF w(1)]]
    failed_load_raises_once [OF c(2) f(2) disjI1 [OF w(2)]] e
  show ?thesis by simp
qed

text \<open>
  C5 as stated fails at the second failed load: after the first call has raised, the same
  call on the same host returns normally, with no executable resolved.
\<close>

theorem later_failed_load_counterexample:
  "load_settings example_host fresh =
     (Inl (ValueError ''Git binary not found.''), shown_host, shown_self) \<and>
   \<not> truthy (configured_git_binary shown_host) \<and>
   \<not> truthy (git_binary_path_fallback shown_self) \<and>
   which shown_host ''git'' = None \<and>
   load_settings shown_host shown_self =
     (Inr (), shown_host, shown_self\<lparr>ignore_whitespace := PStr [], patience_switch := []\<rparr>) \<and>
   git_binary_path shown_self = PNone"
  by (simp add: shown_host_def shown_self_def model_defs host_defs)

section \<open>The accessors\<close>

text \<open>
  C3 (amended). With the store unset, \<open>get\<close> and \<open>set\<close> call \<open>load_settings\<close> first.  When
  that call returns they delegate to the store of the plugin's settings file: \<open>get\<close>
  returns its value for the key or the default, \<open>set\<close> writes the value.  When it raises,
  the accessor raises the same error and the store is not touched.
\<close>

theorem accessors_load_lazily:
  assumes "self_settings s = None"
  shows "get h s key dflt =
           (case load_settings h s of
              (Inl e, h', s') \<Rightarrow> (Inl e, h', s')
            | (Inr u, h', s') \<Rightarrow> (Inr (settings_get h' gitgutter_file key dflt), h', s')) \<and>
         set' h s key v =
           (case load_settings h s of
              (Inl e, h', s') \<Rightarrow> (Inl e, h', s')
            | (Inr u, h', s') \<Rightarrow> (Inr (), settings_set h' gitgutter_file key v, s'))"
  using assms
  by (auto simp: get_def set'_def needs_load_def split: prod.splits sum.splits option.splits
      dest: load_settings_ok)

theorem accessors_load_lazily_witness:
  "self_settings fresh = None \<and>
   fst (get configured_host fresh ''compare_against'' (PStr ''HEAD'')) = Inr (PStr ''master'') \<and>
   fst (get configured_host fresh ''patience'' PNone) = Inr PNone \<and>
   fst (set' configured_host fresh ''patience'' (PBool True)) = Inr () \<and>
   settings_files (fst (snd (set' configured_host fresh ''patience'' (PBool True))))
     gitgutter_file ''patience'' = Some (PBool True)"
proof -
  have n: "self_settings fresh = None"
    by (simp add: fresh_def init_def)
  have l: "load_settings configured_host fresh =
      (Inr (), configured_host, snd (snd (load_settings configured_host fresh)))"
    by (simp add: model_defs host_defs)
  have g: "get configured_host fresh ''compare_against'' (PStr ''HEAD'') =
          (Inr (settings_get configured_host gitgutter_file ''compare_against'' (PStr ''HEAD'')),
           configured_host, snd (snd (load_settings configured_host fresh)))"
    using accessors_load_lazily [OF n, where h = configured_host and key = "''compare_against''"
      and dflt = "PStr ''HEAD''"]
    by (subst (asm) (1 2) l) simp
  have p: "get configured_host fresh ''patience'' PNone =
          (Inr (settings_get configured_host gitgutter_file ''patience'' PNone),
           configured_host, snd (snd (load_settings configured_host fresh))) \<and>
        set' configured_host fresh ''patience'' (PBool True) =
          (Inr (), settings_set configured_host gitgutter_file ''patience'' (PBool True),
           snd (snd (load_settings configured_host fresh)))"
    using accessors_load_lazily [OF n, where h = configured_host and key = "''patience''"
      and dflt = PNone and v = "PBool True"]
    by (subst (asm) (1 2) l) simp
  have v: "settings_get configured_host gitgutter_file ''compare_against'' (PStr ''HEAD'') =
        PStr ''master''"
      "settings_get configured_host gitgutter_file ''patience'' PNone = PNone"
      "settings_files (settings_set configured_host gitgutter_file ''patience'' (PBool True))
         gitgutter_file ''patience'' = Some (PBool True)"
    by (simp_all add: settings_get_def settings_set_def configured_host_def example_host_def
        plugin_file_def)
  show ?thesis
    by (simp only: n g p v fst_conv snd_conv simp_thms)
qed

text \<open>
  C3 as stated fails: on a fresh object, on a host without any executable, both accessors
  raise the \<open>ValueError\<close> of \<open>load_settings\<close>.
\<close>

theorem accessors_raise_counterexample:
  "self_settings fresh = None \<and>
   fst (get example_host fresh ''theme'' PNone) = Inl (ValueError ''Git binary not found.'') \<and>
   fst (set' example_host fresh ''theme'' (PStr ''Default.gitgutter-theme'')) =
     Inl (ValueError ''Git binary not found.'')"
  by (simp add: set'_def model_defs host_defs)

section \<open>The whitespace switch\<close>

text \<open>
  C8. After a call of \<open>load_settings\<close> that returns, \<open>ignore_whitespace\<close> is \<open>-w\<close> when
  the plugin setting \<open>ignore_whitespace\<close> is the string \<open>all\<close>, \<open>--ignore-space-at-eol\<close>
  when it is \<open>eol\<close>, and the empty string for every other value and when the setting is
  absent.
\<close>

theorem whitespace_switch_after_load:
  assumes "load_settings h s = (Inr (), h', s')"
  shows "(settings_files h gitgutter_file ''ignore_whitespace'' = Some (PStr ''all'') \<longrightarrow>
            ignore_whitespace s' = PStr ''-w'') \<and>
         (settings_files h gitgutter_file ''ignore_whitespace'' = Some (PStr ''eol'') \<longrightarrow>
            ignore_whitespace s' = PStr ''--ignore-space-at-eol'') \<and>
         (settings_files h gitgutter_file ''ignore_whitespace'' \<noteq> Some (PStr ''all'') \<and>
          settings_files h gitgutter_file ''ignore_whitespace'' \<noteq> Some (PStr ''eol'') \<longrightarrow>
            ignore_whitespace s' = PStr [])"
  using assms
  by (auto simp: load_settings_def load_switches_def whitespace_switch_def settings_get_def Let_def
      split: if_splits sum.splits option.splits)

theorem whitespace_switch_after_load_witness:
  "fst (load_settings configured_host fresh) = Inr () \<and>
   ignore_whitespace (snd (snd (load_settings configured_host fresh))) = PStr ''-w'' \<and>
   fst (load_settings eol_host fresh) = Inr () \<and>
   ignore_whitespace (snd (snd (load_settings eol_host fresh))) = PStr ''--ignore-space-at-eol'' \<and>
   fst (load_settings git_host fresh) = Inr () \<and>
   ignore_whitespace (snd (snd (load_settings git_host fresh))) = PStr []"
proof -
  have l1: "load_settings configured_host fresh =
      (Inr (), configured_host, snd (snd (load_settings configured_host fresh)))"
    by (simp add: model_defs host_defs)
  have l2: "load_settings eol_host fresh =
      (Inr (), eol_host, snd (snd (load_settings eol_host fresh)))"
    by (simp add: model_defs host_defs eol_host_def)
  have l3: "load_settings git_host fresh =
      (Inr (), git_host, snd (snd (load_settings git_host fresh)))"
    by (simp add: model_defs host_defs)
  have k: "settings_files configured_host gitgutter_file ''ignore_whitespace'' = Some (PStr ''all'')"
    "settings_files eol_host gitgutter_file ''ignore_whitespace'' = Some (PStr ''eol'')"
    "settings_files git_host gitgutter_file ''ignore_whitespace'' = None"
    by (simp_all add: host_defs eol_host_def)
  have f: "fst (load_settings configured_host fresh) = Inr ()"
    "fst (load_settings eol_host fresh) = Inr ()" "fst (load_settings git_host fresh) = Inr ()"
    by (subst l1 l2 l3, simp)+
  from whitespace_switch_after_load [OF l1] whitespace_switch_after_load [OF l2]
    whitespace_switch_after_load [OF l3] k f
  show ?thesis by simp
qed

section \<open>The minimap width\<close>

text \<open>
  C10. On a host before ST3 (version below 3000) \<open>get_show_in_minimap\<close> returns 0 for
  every view and every object, and leaves host and object as they were: neither the view's
  settings nor the plugin's are read.
\<close>

theorem minimap_pre_st3:
  "version h < 3000 \<Longrightarrow> get_show_in_minimap h s v = (Inr (PInt 0), h, s)"
  by (simp add: get_show_in_minimap_def ST3_def STVER_def)

theorem minimap_pre_st3_witness:
  "version old_host < 3000 \<and>
   get_show_in_minimap old_host fresh_old
     \<lparr>view_settings = [''git_gutter_show_in_minimap'' \<mapsto> PInt 5]\<rparr> =
   (Inr (PInt 0), old_host, fresh_old)"
  using minimap_pre_st3 [of old_host fresh_old
      "\<lparr>view_settings = [''git_gutter_show_in_minimap'' \<mapsto> PInt 5]\<rparr>"]
  by (simp add: old_host_def example_host_def)

text \<open>
  C6 (amended). On an ST3 host: for an integer width set on the view,
  \<open>get_show_in_minimap\<close> returns 100000 when the width is negative and the width itself
  when it is zero or positive, and changes nothing.  When the view sets none, the width is
  the integer of the plugin setting \<open>show_in_minimap\<close>, or 1 when the setting is absent;
  on an object whose store is unset or is the plugin's, the same limits apply to it, at
  once when the store is loaded and has the key, and after \<open>load_settings\<close> otherwise:
  if that load returns, the limited width is returned, and if it raises, the call raises
  the same error.
\<close>

theorem minimap_width_limits:
  assumes "ST3 h"
  shows "(view_get v ''git_gutter_show_in_minimap'' = PInt w \<longrightarrow>
            get_show_in_minimap h s v = (Inr (PInt (if 0 \<le> w then w else 100000)), h, s)) \<and>
         (view_get v ''git_gutter_show_in_minimap'' = PNone \<and>
          (self_settings s = None \<or> self_settings s = Some gitgutter_file) \<and>
          settings_get h gitgutter_file ''show_in_minimap'' (PInt 1) = PInt w \<longrightarrow>
            get_show_in_minimap h s v =
              (if self_settings s = Some gitgutter_file \<and>
                  settings_has h gitgutter_file ''show_in_minimap''
               then (Inr (PInt (if 0 \<le> w then w else 100000)), h, s)
               else (case load_settings h s of
                       (Inl e, h', s') \<Rightarrow> (Inl e, h', s')
                     | (Inr u, h', s') \<Rightarrow>
                         (Inr (PInt (if 0 \<le> w then w else 100000)), h', s'))))"
proof (intro conjI impI)
  assume "view_get v ''git_gutter_show_in_minimap'' = PInt w"
  with assms show "get_show_in_minimap h s v =
      (Inr (PInt (if 0 \<le> w then w else 100000)), h, s)"
    by (simp add: get_show_in_minimap_def limit_width_def)
next
  assume a: "view_get v ''git_gutter_show_in_minimap'' = PNone \<and>
          (self_settings s = None \<or> self_settings s = Some gitgutter_file) \<and>
          settings_get h gitgutter_file ''show_in_minimap'' (PInt 1) = PInt w"
  then have wf: "self_settings s = None \<or> self_settings s = Some gitgutter_file" by simp
  from a assms show "get_show_in_minimap h s v =
              (if self_settings s = Some gitgutter_file \<and>
                  settings_has h gitgutter_file ''show_in_minimap''
               then (Inr (PInt (if 0 \<le> w then w else 100000)), h, s)
               else (case load_settings h s of
                       (Inl e, h', s') \<Rightarrow> (Inl e, h', s')
                     | (Inr u, h', s') \<Rightarrow>
                         (Inr (PInt (if 0 \<le> w then w else 100000)), h', s')))"
    by (simp add: get_show_in_minimap_def limit_width_def get_plugin_store [OF wf]
        split: prod.split sum.split)
qed

theorem minimap_width_limits_witness:
  "ST3 example_host \<and>
   get_show_in_minimap example_host fresh (width_view (- 5)) =
     (Inr (PInt 100000), example_host, fresh) \<and>
   get_show_in_minimap example_host fresh (width_view 3) = (Inr (PInt 3), example_host, fresh) \<and>
   fst (get_show_in_minimap configured_host fresh empty_view) = Inr (PInt 100000) \<and>
   fst (get_show_in_minimap git_host fresh empty_view) = Inr (PInt 1) \<and>
   get_show_in_minimap configured_host loaded_self empty_view =
     (Inr (PInt 100000), configured_host, loaded_self) \<and>
   fst (get_show_in_minimap settings_only_host fresh empty_view) =
     Inl (ValueError ''Git binary not found.'')"
proof -
  have st: "ST3 example_host" "ST3 configured_host" "ST3 git_host" "ST3 settings_only_host"
    by (simp_all add: ST3_def STVER_def configured_host_def git_host_def settings_only_host_def
        example_host_def)
  have v: "view_get (width_view w) ''git_gutter_show_in_minimap'' = PInt w" for w
    by (simp add: view_get_def width_view_def)
  have e: "view_get empty_view ''git_gutter_show_in_minimap'' = PNone"
    by (simp add: view_get_def empty_view_def)
  have n: "self_settings fresh = None"
    by (simp add: fresh_def init_def)
  have lf: "fst (load_settings configured_host fresh) = Inr ()"
    "fst (load_settings git_host fresh) = Inr ()"
    "fst (load_settings settings_only_host fresh) = Inl (ValueError ''Git binary not found.'')"
    by (simp_all add: model_defs host_defs settings_only_host_def)
  have ld: "self_settings loaded_self = Some gitgutter_file"
    by (simp add: loaded_self_def model_defs host_defs)
  have c: "settings_get configured_host gitgutter_file ''show_in_minimap'' (PInt 1) = PInt (- 1)"
    "settings_get git_host gitgutter_file ''show_in_minimap'' (PInt 1) = PInt 1"
    "settings_get settings_only_host gitgutter_file ''show_in_minimap'' (PInt 1) = PInt 3"
    "settings_has configured_host gitgutter_file ''show_in_minimap''"
    by (simp_all add: settings_get_def settings_has_def host_defs settings_only_host_def)
  have a1: "get_show_in_minimap example_host fresh (width_view (- 5)) =
      (Inr (PInt 100000), example_host, fresh)"
    using minimap_width_limits [OF st(1), of "width_view (- 5)" "- 5" fresh] by (simp add: v)
  have a2: "get_show_in_minimap example_host fresh (width_view 3) =
      (Inr (PInt 3), example_host, fresh)"
    using minimap_width_limits [OF st(1), of "width_view 3" 3 fresh] by (simp add: v)
  have a3: "fst (get_show_in_minimap configured_host fresh empty_view) = Inr (PInt 100000)"
    using minimap_width_limits [OF st(2), of empty_view "- 1" fresh]
    by (simp add: e n c lf case_prod_beta)
  have a4: "fst (get_show_in_minimap git_host fresh empty_view) = Inr (PInt 1)"
    using minimap_width_limits [OF st(3), of empty_view 1 fresh]
    by (simp add: e n c lf case_prod_beta)
  have a5: "get_show_in_minimap configured_host loaded_self empty_view =
      (Inr (PInt 100000), configured_host, loaded_self)"
    using minimap_width_limits [OF st(2), of empty_view "- 1" loaded_self]
    by (simp add: e ld c)
  have a6: "fst (get_show_in_minimap settings_only_host fresh empty_view) =
      Inl (ValueError ''Git binary not found.'')"
    using minimap_width_limits [OF st(4), of empty_view 3 fresh]
    by (simp add: e n c lf case_prod_beta)
  show ?thesis
    by (simp only: st a1 a2 a3 a4 a5 a6 simp_thms)
qed

text \<open>
  C6 as stated fails at width 0, which is returned as 0 on ST3; at width 3 on a host
  before ST3, where the result is 0; and at width 3 in the plugin settings on an ST3 host
  without \<open>git\<close>, where a fresh object raises \<open>ValueError\<close>.
\<close>

theorem minimap_zero_counterexample:
  "ST3 example_host \<and>
   get_show_in_minimap example_host fresh (width_view 0) = (Inr (PInt 0), example_host, fresh) \<and>
   \<not> ST3 old_host \<and>
   get_show_in_minimap old_host fresh_old (width_view 3) = (Inr (PInt 0), old_host, fresh_old) \<and>
   ST3 settings_only_host \<and>
   view_get empty_view ''git_gutter_show_in_minimap'' = PNone \<and>
   settings_files settings_only_host gitgutter_file ''show_in_minimap'' = Some (PInt 3) \<and>
   fst (get_show_in_minimap settings_only_host fresh empty_view) =
     Inl (ValueError ''Git binary not found.'')"
  by (simp add: get_show_in_minimap_def limit_width_def view_get_def width_view_def
      empty_view_def old_host_def settings_only_host_def model_defs host_defs)

section \<open>The theme path\<close>

text \<open>
  C9 (amended). On an object whose store is unset or is the plugin's, with the string \<open>t\<close>
  as the configured theme (the plugin setting \<open>theme\<close>, or \<open>Default.gitgutter-theme\<close>
  when absent), the path \<open>p\<close> is: the cached path when \<open>t\<close> is its basename; otherwise,
  on ST3, the directory of the last resource found for \<open>t\<close>, or the default theme path
  when none is found; otherwise, before ST3, the built-in themes path, a slash and \<open>t\<close>
  without its extension, with no resource searched.  Reading \<open>theme_path\<close> reads the
  setting first, at once when the store is loaded and has the key, after \<open>load_settings\<close>
  otherwise; if that load raises, the read raises the same error; else the cache becomes
  \<open>p\<close> (so stays as it is when \<open>t\<close> is its basename) and \<open>p\<close> is returned.  When \<open>t\<close> is
  the basename of the cached path the outcome is the same whatever a resource search
  would find.
\<close>

theorem theme_path_cases:
  assumes "self_settings s = None \<or> self_settings s = Some gitgutter_file"
    and "settings_get h gitgutter_file ''theme'' (PStr ''Default.gitgutter-theme'') = PStr t"
  shows "(let p = (if t = basename h (theme_path_cache s) then theme_path_cache s
                   else if ST3 h then
                     (if find_resources h t \<noteq> [] then dirname h (last (find_resources h t))
                      else default_theme_path s)
                   else builtin_theme_path s @ ''/'' @ fst (splitext h t))
          in theme_path h s =
               (if self_settings s = Some gitgutter_file \<and> settings_has h gitgutter_file ''theme''
                then (Inr p, h, s\<lparr>theme_path_cache := p\<rparr>)
                else (case load_settings h s of
                        (Inl e, h', s') \<Rightarrow> (Inl e, h', s')
                      | (Inr u, h', s') \<Rightarrow> (Inr p, h', s'\<lparr>theme_path_cache := p\<rparr>)))) \<and>
         (t = basename h (theme_path_cache s) \<longrightarrow>
            (\<forall>f. theme_path (h\<lparr>find_resources := f\<rparr>) s =
                   (case theme_path h s of (r, h', s') \<Rightarrow> (r, h'\<lparr>find_resources := f\<rparr>, s'))))"
proof (intro conjI impI allI)
  obtain r h' s' where l: "load_settings h s = (r, h', s')"
    by (cases "load_settings h s") auto
  from load_settings_frame [OF l] have fr: "theme_path_cache s' = theme_path_cache s"
    "builtin_theme_path s' = builtin_theme_path s" by simp_all
  have ok: "h' = h" if "r = Inr u" for u
    using load_settings_ok [of h s u h' s'] l that by simp
  show "let p = (if t = basename h (theme_path_cache s) then theme_path_cache s
                   else if ST3 h then
                     (if find_resources h t \<noteq> [] then dirname h (last (find_resources h t))
                      else default_theme_path s)
                   else builtin_theme_path s @ ''/'' @ fst (splitext h t))
          in theme_path h s =
               (if self_settings s = Some gitgutter_file \<and> settings_has h gitgutter_file ''theme''
                then (Inr p, h, s\<lparr>theme_path_cache := p\<rparr>)
                else (case load_settings h s of
                        (Inl e, h', s') \<Rightarrow> (Inl e, h', s')
                      | (Inr u, h', s') \<Rightarrow> (Inr p, h', s'\<lparr>theme_path_cache := p\<rparr>)))"
  proof (cases r)
    case (Inl e)
    with l assms(2) fr show ?thesis
      by (simp add: theme_path_def default_theme_path_def get_plugin_store [OF assms(1)] Let_def)
  next
    case (Inr u)
    with l assms(2) fr ok [OF Inr] show ?thesis
      by (simp add: theme_path_def default_theme_path_def get_plugin_store [OF assms(1)] Let_def)
  qed
next
  fix f
  assume hit: "t = basename h (theme_path_cache s)"
  obtain r h' s' where l: "load_settings h s = (r, h', s')"
    by (cases "load_settings h s") auto
  from load_settings_frame [OF l] have fr: "theme_path_cache s' = theme_path_cache s"
    by simp
  have ok: "h' = h" if "r = Inr u" for u
    using load_settings_ok [of h s u h' s'] l that by simp
  show "theme_path (h\<lparr>find_resources := f\<rparr>) s =
      (case theme_path h s of (r, h', s') \<Rightarrow> (r, h'\<lparr>find_resources := f\<rparr>, s'))"
  proof (cases r)
    case (Inl e)
    with l assms(2) fr hit show ?thesis
      by (simp add: theme_path_def get_plugin_store [OF assms(1)] settings_find_resources
          load_settings_find_resources)
  next
    case (Inr u)
    with l assms(2) fr hit ok [OF Inr] show ?thesis
      by (simp add: theme_path_def get_plugin_store [OF assms(1)] settings_find_resources
          load_settings_find_resources)
  qed
qed

theorem theme_path_cases_witness:
  "fst (theme_path configured_host themed_self) = Inr ''Packages/User/Bars.gitgutter-theme'' \<and>
   theme_path_cache (snd (snd (theme_path configured_host themed_self))) =
     ''Packages/User/Bars.gitgutter-theme'' \<and>
   fst (theme_path configured_host fresh) = Inr ''Packages/User/Icons'' \<and>
   theme_path configured_host loaded_self =
     (Inr ''Packages/User/Icons'', configured_host,
      loaded_self\<lparr>theme_path_cache := ''Packages/User/Icons''\<rparr>) \<and>
   fst (theme_path git_host fresh) = Inr ''Packages/GitGutter/themes/Default'' \<and>
   fst (theme_path old_host fresh_old) = Inr ''../GitGutter/themes/Bars'' \<and>
   fst (theme_path settings_only_host themed_self) = Inl (ValueError ''Git binary not found.'')"
proof -
  have n: "self_settings fresh = None" "self_settings themed_self = None"
    "self_settings fresh_old = None"
    by (simp_all add: fresh_def fresh_old_def themed_self_def init_def)
  have ld: "self_settings loaded_self = Some gitgutter_file"
    "theme_path_cache loaded_self = []"
    "settings_has configured_host gitgutter_file ''theme''"
    by (simp_all add: loaded_self_def model_defs host_defs)
  have lf: "fst (load_settings configured_host themed_self) = Inr ()"
    "fst (load_settings configured_host fresh) = Inr ()"
    "fst (load_settings git_host fresh) = Inr ()"
    "fst (load_settings old_host fresh_old) = Inr ()"
    "fst (load_settings settings_only_host themed_self) =
       Inl (ValueError ''Git binary not found.'')"
    by (simp_all add: model_defs host_defs themed_self_def old_host_def fresh_old_def
        settings_only_host_def)
  have c: "settings_get configured_host gitgutter_file ''theme'' (PStr ''Default.gitgutter-theme'') =
        PStr ''Bars.gitgutter-theme''"
    "settings_get git_host gitgutter_file ''theme'' (PStr ''Default.gitgutter-theme'') =
        PStr ''Default.gitgutter-theme''"
    "settings_get old_host gitgutter_file ''theme'' (PStr ''Default.gitgutter-theme'') =
        PStr ''Bars.gitgutter-theme''"
    "settings_get settings_only_host gitgutter_file ''theme'' (PStr ''Default.gitgutter-theme'') =
        PStr ''Bars.gitgutter-theme''"
    by (simp_all add: settings_get_def host_defs old_host_def settings_only_host_def)
  have k1: "basename configured_host ''Packages/User/Bars.gitgutter-theme'' =
      ''Bars.gitgutter-theme''"
    "basename settings_only_host ''Packages/User/Bars.gitgutter-theme'' =
      ''Bars.gitgutter-theme''"
    "theme_path_cache themed_self = ''Packages/User/Bars.gitgutter-theme''"
    by (simp_all add: host_defs settings_only_host_def themed_self_def init_def)
  have k2: "''Bars.gitgutter-theme'' \<noteq> basename configured_host (theme_path_cache fresh)"
    "ST3 configured_host"
    "find_resources configured_host ''Bars.gitgutter-theme'' \<noteq> []"
    "dirname configured_host (last (find_resources configured_host ''Bars.gitgutter-theme'')) =
      ''Packages/User/Icons''"
    "''Bars.gitgutter-theme'' \<noteq> basename configured_host []"
    by (simp_all add: host_defs init_def ST3_def STVER_def)
  have k3: "''Default.gitgutter-theme'' \<noteq> basename git_host (theme_path_cache fresh)"
    "ST3 git_host" "find_resources git_host ''Default.gitgutter-theme'' = []"
    "default_theme_path fresh = ''Packages/GitGutter/themes/Default''"
    by (simp_all add: host_defs init_def ST3_def STVER_def default_theme_path_def)
  have k4: "''Bars.gitgutter-theme'' \<noteq> basename old_host (theme_path_cache fresh_old)"
    "\<not> ST3 old_host"
    "builtin_theme_path fresh_old = ''../GitGutter/themes''"
    "splitext old_host ''Bars.gitgutter-theme'' = (''Bars'', ''.gitgutter-theme'')"
    by (simp_all add: host_defs old_host_def fresh_old_def init_def ST3_def STVER_def)
  have r1: "fst (theme_path configured_host themed_self) = Inr ''Packages/User/Bars.gitgutter-theme'' \<and>
      theme_path_cache (snd (snd (theme_path configured_host themed_self))) =
        ''Packages/User/Bars.gitgutter-theme''"
    using theme_path_cases [OF disjI1 [OF n(2)] c(1), THEN conjunct1]
    by (simp add: Let_def case_prod_beta n k1 lf)
  have r2: "fst (theme_path configured_host fresh) = Inr ''Packages/User/Icons''"
    using theme_path_cases [OF disjI1 [OF n(1)] c(1), THEN conjunct1]
    by (simp add: Let_def case_prod_beta n k2 lf)
  have r3: "theme_path configured_host loaded_self =
     (Inr ''Packages/User/Icons'', configured_host,
      loaded_self\<lparr>theme_path_cache := ''Packages/User/Icons''\<rparr>)"
    using theme_path_cases [OF disjI2 [OF ld(1)] c(1), THEN conjunct1]
    by (simp add: Let_def ld k2)
  have r4: "fst (theme_path git_host fresh) = Inr ''Packages/GitGutter/themes/Default''"
    using theme_path_cases [OF disjI1 [OF n(1)] c(2), THEN conjunct1]
    by (simp add: Let_def case_prod_beta n k3 lf)
  have r5: "fst (theme_path old_host fresh_old) = Inr ''../GitGutter/themes/Bars''"
    using theme_path_cases [OF disjI1 [OF n(3)] c(3), THEN conjunct1]
    by (simp add: Let_def case_prod_beta n k4 lf)
  have r6: "fst (theme_path settings_only_host themed_self) =
      Inl (ValueError ''Git binary not found.'')"
    using theme_path_cases [OF disjI1 [OF n(2)] c(4), THEN conjunct1]
    by (simp add: Let_def case_prod_beta n k1 lf)
  show ?thesis
    using r1 r2 r3 r4 r5 r6 by (simp only: simp_thms)
qed

text \<open>
  C9 as stated fails before ST3: with the theme \<open>Bars.gitgutter-theme\<close> configured, an
  empty cache and no resource for the name, the result is the \<open>Bars\<close> folder of the
  built-in themes, not the default theme path.  It also fails on a host without \<open>git\<close>:
  with the configured theme equal to the basename of the cached path, a fresh object
  raises \<open>ValueError\<close> instead of returning the cached path.
\<close>

theorem theme_path_pre_st3_counterexample:
  "fst (get old_host fresh_old ''theme'' (PStr ''Default.gitgutter-theme'')) =
     Inr (PStr ''Bars.gitgutter-theme'') \<and>
   basename old_host (theme_path_cache fresh_old) = [] \<and>
   find_resources old_host ''Bars.gitgutter-theme'' = [] \<and>
   default_theme_path fresh_old = ''../GitGutter/themes/Default'' \<and>
   fst (theme_path old_host fresh_old) = Inr ''../GitGutter/themes/Bars'' \<and>
   settings_files settings_only_host gitgutter_file ''theme'' = Some (PStr ''Bars.gitgutter-theme'') \<and>
   basename settings_only_host (theme_path_cache themed_self) = ''Bars.gitgutter-theme'' \<and>
   fst (theme_path settings_only_host themed_self) = Inl (ValueError ''Git binary not found.'')"
  by (simp add: theme_path_def default_theme_path_def model_defs host_defs
      old_host_def fresh_old_def settings_only_host_def themed_self_def)

end
